theory Spec2Isabelle
  imports Complex_Main
begin

section \<open>Data model of the robot coordinator (robot.py, class BCRobot)\<close>

text \<open>
  Coordinates are Python floats in the source. They are modelled as reals: every claim
  below compares distances with thresholds, and a float comparison is the comparison of
  the reals the two floats denote.
\<close>

record point =
  p_x :: real
  p_y :: real
  p_z :: real

record quaternion =
  q_x :: real
  q_y :: real
  q_z :: real
  q_w :: real

record pose =
  position :: point
  orientation :: quaternion

text \<open>A relay beacon of \<^verbatim>\<open>self.beacons\<close>: id, owner flag, active flag, position, simcomm flag.\<close>

record beacon =
  beacon_id :: string
  owner :: bool
  active :: bool
  pos :: point
  simcomm :: bool

record artifact =
  agent_id :: string
  reported :: bool

text \<open>
  What the coordinator sends out, in order: messages on its publishers, the simulator's
  set-pose service, the pauses of the deployment sequence, and the calls of methods of the
  parent class BOBCAT, whose code is not part of robot.py (\<^verbatim>\<open>stop\<close>,
  \<^verbatim>\<open>setGoalPoint\<close>, \<^verbatim>\<open>updateStatus\<close>, \<^verbatim>\<open>addBlacklist\<close>,
  \<^verbatim>\<open>deconflictGoals\<close>). A call of a parent method is recorded as an event and changes
  no field of the state. Of the log lines only the one of \<^verbatim>\<open>deployBeacon\<close> that records
  the drop reason is modelled.
\<close>

datatype msg =
  Bool_msg bool
  | String_msg string
  | Empty_msg
  | Pose_msg pose
  | Path_msg "pose list"

datatype event =
  Publish string msg
  | Call_stop
  | Call_setGoalPoint string
  | Call_updateStatus string
  | Call_addBlacklist point
  | Call_deconflictGoals
  | Call_set_state string pose
  | Sleep nat
  | Loginfo string

text \<open>
  The state of one BCRobot: the fields \<^verbatim>\<open>__init__\<close> sets, the fields of the parent
  class that robot.py reads or writes (\<^verbatim>\<open>beacons\<close>, \<^verbatim>\<open>numBeacons\<close>,
  \<^verbatim>\<open>blgoals\<close>, \<^verbatim>\<open>artifacts\<close>, \<^verbatim>\<open>solo\<close>, \<^verbatim>\<open>useSimComms\<close>,
  \<^verbatim>\<open>useVirtual\<close>, \<^verbatim>\<open>useTraj\<close>, \<^verbatim>\<open>stopStart\<close>, \<^verbatim>\<open>id\<close>), the fields of
  \<^verbatim>\<open>self.agent\<close> and \<^verbatim>\<open>self.base\<close> with their prefix, and the events sent so far.
  The dictionaries \<^verbatim>\<open>beacons\<close> and \<^verbatim>\<open>artifacts\<close> are association lists in the
  order \<^verbatim>\<open>values()\<close> iterates. Mode and status are strings, as in the source.
\<close>

record robot =
  robot_id :: string
  deconflictRadius :: real
  stopCheck :: int
  maxAnchorDist :: real
  maxDist :: real
  junctionDist :: real
  turnDetect :: bool
  delayDrop :: bool
  reverseDropEnable :: bool
  reverseDrop :: bool
  anchorPos :: point
  startedMission :: bool
  initialPose :: "pose option"
  bl_beacons :: "point list"
  history :: "pose list"
  hislen :: int
  minAnchorDist :: real
  report :: bool
  beaconCommLost :: int
  regainBase :: int
  mode :: string
  stuck :: int
  planner_status :: bool
  launch_status :: bool
  isAerial :: bool
  beacons :: "(string \<times> beacon) list"
  numBeacons :: int
  blgoals :: "point list"
  artifacts :: "(string \<times> artifact) list"
  solo :: bool
  useSimComms :: bool
  useVirtual :: bool
  useTraj :: bool
  stopStart :: bool
  agent_status :: string
  agent_odometry :: pose
  agent_goal_pose :: pose
  agent_goal_path :: "pose list"
  agent_exploreGoal :: pose
  agent_explorePath :: "pose list"
  agent_atnode :: bool
  agent_lastArtifact :: string
  agent_guiGoalPoint :: pose
  agent_reset_stamp :: nat
  agent_reset_agent :: string
  agent_reset_ignore :: bool
  agent_reset_robots :: bool
  agent_guiStamp :: nat
  base_incomm :: bool
  base_lastArtifact :: string
  events :: "event list"

text \<open>
  What lies outside robot.py: the functions it imports from util.helpers, the goal choice
  of the parent class, and the answer of the deployment mechanism. Their code is not part
  of robot.py, so every function below takes them as a parameter and every general theorem
  holds for whatever they compute. \<^verbatim>\<open>deconflictGoals\<close> is the goal (pose and path) the
  parent's goal deconfliction leaves in \<^verbatim>\<open>self.agent.goal\<close>; \<^verbatim>\<open>mechanism\<close> tells, for a
  beacon id and a drop pose, whether the deployment trigger (the breadcrumb and deploy
  publishers, the simulator's set-pose service) returns or raises.
\<close>

datatype outcome = Acknowledged | Raises

datatype py_error = IndexError | ZeroDivisionError | NameError

record ext =
  getDist :: "point \<Rightarrow> point \<Rightarrow> real"
  getYaw :: "quaternion \<Rightarrow> real"
  angleDiff :: "real \<Rightarrow> real \<Rightarrow> real"
  averagePosition :: "point list \<Rightarrow> point"
  averagePose :: "pose list \<Rightarrow> point \<times> real"
  deconflictGoals :: "robot \<Rightarrow> pose \<times> pose list"
  mechanism :: "string \<Rightarrow> pose \<Rightarrow> outcome"

definition emit :: "event \<Rightarrow> robot \<Rightarrow> robot" where
  "emit e s = s\<lparr>events := events s @ [e]\<rparr>"

subsection \<open>Python's list slices, \<^verbatim>\<open>int()\<close> and \<^verbatim>\<open>math.degrees\<close>\<close>

text \<open>\<^verbatim>\<open>xs[k:]\<close> and \<^verbatim>\<open>xs[:k]\<close>; a negative index counts from the end, and \<^verbatim>\<open>-0\<close> is 0.\<close>

definition slice_from :: "int \<Rightarrow> 'a list \<Rightarrow> 'a list" where
  "slice_from k xs = (if k \<ge> 0 then drop (nat k) xs else drop (nat (int (length xs) + k)) xs)"

definition slice_to :: "int \<Rightarrow> 'a list \<Rightarrow> 'a list" where
  "slice_to k xs = (if k \<ge> 0 then take (nat k) xs else take (nat (int (length xs) + k)) xs)"

text \<open>\<^verbatim>\<open>int(r)\<close> truncates towards zero.\<close>

definition py_int :: "real \<Rightarrow> int" where
  "py_int r = (if r \<ge> 0 then \<lfloor>r\<rfloor> else \<lceil>r\<rceil>)"

text \<open>Radians to degrees, as the library function \<^verbatim>\<open>math.degrees\<close> converts them.\<close>

definition degrees :: "real \<Rightarrow> real" where
  "degrees r = r * 180 / pi"

section \<open>updateHistory\<close>

definition updateHistory :: "ext \<Rightarrow> robot \<Rightarrow> robot" where
  "updateHistory E s =
     (let cur = agent_odometry s;
          s1 = (case initialPose s of
                  None \<Rightarrow> s\<lparr>initialPose := Some cur\<rparr>
                | Some ip \<Rightarrow>
                    if \<not> startedMission s then
                      (if getDist E (position cur) (position ip) > 5
                       then s\<lparr>startedMission := True\<rparr> else s)
                    else s);
          s2 = s1\<lparr>history := history s1 @ [cur]\<rparr>
      in if int (length (history s2)) > hislen s2
         then s2\<lparr>history := slice_from (- hislen s2) (history s2)\<rparr>
         else s2)"

section \<open>beaconDistCheck\<close>

text \<open>
  The loop of \<^verbatim>\<open>beaconDistCheck\<close> over \<^verbatim>\<open>self.beacons.values()\<close>; the accumulator is
  \<^verbatim>\<open>(dropBeacon, numBeacons, numDistBeacons)\<close>.
\<close>

fun beaconDistLoop ::
  "(point \<Rightarrow> point \<Rightarrow> real) \<Rightarrow> pose \<Rightarrow> real \<Rightarrow> beacon list \<Rightarrow> bool \<times> int \<times> int \<Rightarrow> bool \<times> int \<times> int"
where
  "beaconDistLoop gd p checkDist [] acc = acc"
| "beaconDistLoop gd p checkDist (b # bs) (dropBeacon, nB, nDB) =
     (if active b then
        (if gd (position p) (pos b) > checkDist
         then beaconDistLoop gd p checkDist bs (True, nB + 1, nDB + 1)
         else beaconDistLoop gd p checkDist bs (dropBeacon, nB + 1, nDB))
      else beaconDistLoop gd p checkDist bs (dropBeacon, nB, nDB))"

definition beaconDistCheck :: "ext \<Rightarrow> robot \<Rightarrow> pose \<Rightarrow> real \<Rightarrow> bool \<Rightarrow> bool \<times> int \<times> int" where
  "beaconDistCheck E s p checkDist dropBeacon =
     (case beaconDistLoop (getDist E) p checkDist (map snd (beacons s)) (dropBeacon, 0, 0) of
        (dropBeacon', nB, nDB) \<Rightarrow>
          (if nB - nDB > 0 then False else dropBeacon', nB, nDB))"

text \<open>The active beacons within, and beyond, the check distance of a pose.\<close>

definition beaconsInRange :: "ext \<Rightarrow> robot \<Rightarrow> pose \<Rightarrow> real \<Rightarrow> beacon list" where
  "beaconsInRange E s p checkDist =
     filter (\<lambda>b. active b \<and> \<not> getDist E (position p) (pos b) > checkDist) (map snd (beacons s))"

definition beaconsBeyond :: "ext \<Rightarrow> robot \<Rightarrow> pose \<Rightarrow> real \<Rightarrow> beacon list" where
  "beaconsBeyond E s p checkDist =
     filter (\<lambda>b. active b \<and> getDist E (position p) (pos b) > checkDist) (map snd (beacons s))"

definition activeBeacons :: "robot \<Rightarrow> beacon list" where
  "activeBeacons s = filter active (map snd (beacons s))"

section \<open>deconflictExplore\<close>

definition deconflictExplore :: "ext \<Rightarrow> robot \<Rightarrow> robot" where
  "deconflictExplore E s =
     (let s1 = emit (Publish ''task_pub'' (String_msg ''Explore''))
                 (emit (Publish ''home_pub'' (Bool_msg False))
                    (s\<lparr>stopStart := True, agent_status := ''Explore''\<rparr>));
          s2 = (case deconflictGoals E s1 of
                  (gp, gpath) \<Rightarrow>
                    (emit Call_deconflictGoals s1)\<lparr>agent_goal_pose := gp, agent_goal_path := gpath\<rparr>);
          s3 = (if useTraj s2 \<or>
                   (\<not> planner_status s2 \<and>
                    (stuck s2 > stopCheck s2 \<or>
                     getDist E (position (agent_goal_pose s2)) (position (agent_odometry s2)) < 1))
                then
                  (let s4 = (emit (Call_updateStatus ''Following Trajectory'')
                               (emit (Publish ''traj_pub'' (Bool_msg True)) s2))
                              \<lparr>agent_goal_pose := agent_exploreGoal s2,
                               agent_goal_path := agent_explorePath s2\<rparr>
                   in if agent_goal_path s4 \<noteq> [] then
                        (let pathend = position (last (agent_goal_path s4))
                         in if \<not> planner_status s4 \<and>
                               getDist E pathend (position (agent_odometry s4)) < 1
                            then emit (Call_addBlacklist pathend) s4 else s4)
                      else s4)
                else emit (Publish ''traj_pub'' (Bool_msg False)) s2)
      in emit (Publish ''path_pub'' (Path_msg (agent_goal_path s3)))
           (emit (Publish ''goal_pub'' (Pose_msg (agent_goal_pose s3))) s3))"

section \<open>deployBeacon\<close>

text \<open>
  The search loop: the id of the first beacon that is owned and not active, \<^verbatim>\<open>None\<close> for
  \<^verbatim>\<open>deploy = False\<close>.
\<close>

fun firstAvailable :: "beacon list \<Rightarrow> string option" where
  "firstAvailable [] = None"
| "firstAvailable (b # bs) =
     (if owner b \<and> \<not> active b then Some (beacon_id b) else firstAvailable bs)"

text \<open>The else branch: no beacon to deploy.\<close>

definition noBeacon :: "robot \<Rightarrow> robot" where
  "noBeacon s = s\<lparr>numBeacons := 0, mode := ''Explore''\<rparr>"

text \<open>The simulated drop pose: behind the robot, by 0.5 in place and by 6 otherwise.\<close>

definition dropPose :: "ext \<Rightarrow> bool \<Rightarrow> pose \<Rightarrow> pose" where
  "dropPose E inplace p =
     (let yaw = getYaw E (orientation p);
          offset = (if inplace then 0.5 else 6)
      in p\<lparr>position := (position p)\<lparr>p_x := p_x (position p) - cos yaw * offset,
                                          p_y := p_y (position p) - sin yaw * offset\<rparr>\<rparr>)"

text \<open>The trigger of the try block, when nothing raises.\<close>

definition trigger :: "string \<Rightarrow> pose \<Rightarrow> robot \<Rightarrow> robot" where
  "trigger deploy p s =
     (let s1 = emit (Publish ''deploy_breadcrumb_pub'' Empty_msg) s
      in if useSimComms s1 then emit (Sleep 3) (emit (Call_set_state deploy p) s1)
         else (let s2 = emit (Publish ''deploy_pub'' (Bool_msg True)) (emit (Sleep 3) s1)
               in if \<not> useVirtual s2 then emit (Sleep 10) s2 else s2))"

text \<open>
  \<^verbatim>\<open>self.beacons[deploy]\<close> is looked up by key; a missing key raises KeyError inside the
  try block, after the count was decremented, and the except clause swallows it.
\<close>

definition markActive :: "string \<Rightarrow> point \<Rightarrow> robot \<Rightarrow> robot" where
  "markActive deploy p s =
     (case map_of (beacons s) deploy of
        None \<Rightarrow> s
      | Some _ \<Rightarrow>
          s\<lparr>beacons :=
              map (\<lambda>(k, b). if k = deploy
                              then (k, b\<lparr>active := True, pos := p, simcomm := True\<rparr>)
                              else (k, b))
                (beacons s)\<rparr>)"

text \<open>
  \<^verbatim>\<open>if deploy:\<close> is false for \<^verbatim>\<open>False\<close> and for an empty id. In the simulator the drop
  pose is written into the odometry pose object itself. When the trigger raises, the
  except clause logs and nothing after the trigger runs; the events of a raising trigger
  are not recorded.
\<close>

definition deployBeacon :: "ext \<Rightarrow> bool \<Rightarrow> string \<Rightarrow> robot \<Rightarrow> robot" where
  "deployBeacon E inplace dropReason s =
     (case firstAvailable (map snd (beacons s)) of
        None \<Rightarrow> noBeacon s
      | Some deploy \<Rightarrow>
          if deploy = [] then noBeacon s
          else
            (let s1 = emit (Publish ''task_pub'' (String_msg ''Deploy''))
                        ((emit Call_stop s)\<lparr>agent_status := ''Deploy''\<rparr>);
                 s2 = (if useSimComms s1
                       then s1\<lparr>agent_odometry := dropPose E inplace (agent_odometry s1)\<rparr>
                       else s1);
                 p = agent_odometry s2;
                 s2' = emit (Loginfo (robot_id s2 @ '' deploying beacon '' @ deploy @ '' for ''
                                      @ dropReason)) s2
             in case mechanism E deploy p of
                  Raises \<Rightarrow> s2'
                | Acknowledged \<Rightarrow>
                    (let s3 = trigger deploy p s2';
                         s4 = emit (Publish ''deploy_pub'' (Bool_msg False))
                                (deconflictExplore E (emit (Publish ''stop_pub'' (Bool_msg True)) s3));
                         s5 = s4\<lparr>numBeacons := numBeacons s4 - 1\<rparr>
                     in markActive deploy (position p) s5)))"

section \<open>beaconCheck\<close>

text \<open>
  The turn test. \<^verbatim>\<open>int(0.4 * hislen)\<close> is computed in exact arithmetic.
  \<^verbatim>\<open>history[-2]\<close> is read only when the first two conjuncts hold, and raises IndexError
  on a history shorter than two.
\<close>

definition turnCondition :: "ext \<Rightarrow> robot \<Rightarrow> py_error + bool" where
  "turnCondition E s =
     (case averagePose E (slice_to (py_int (0.4 * real_of_int (hislen s))) (history s)) of
        (pos1, yaw1) \<Rightarrow>
     (case averagePose E (slice_from (py_int (0.6 * real_of_int (hislen s))) (history s)) of
        (pos2, yaw2) \<Rightarrow>
          if getDist E pos1 pos2 > 4 \<and> \<bar>angleDiff E yaw1 yaw2\<bar> > 30 then
            (if length (history s) < 2 then Inl IndexError
             else Inr (getDist E (position (history s ! (length (history s) - 2)))
                         (position (last (history s))) > 0.5))
          else Inr False))"

text \<open>
  The anchor rule sets \<^verbatim>\<open>(dropBeacon, dropReason, checkDist)\<close> first; the junction rule, or
  else the turn rule, then overwrites the triple.
\<close>

definition anchorCondition :: "robot \<Rightarrow> real \<Rightarrow> bool" where
  "anchorCondition s anchorDist = (anchorDist > maxAnchorDist s \<and> \<not> delayDrop s)"

definition anchorRule :: "robot \<Rightarrow> real \<Rightarrow> bool \<times> string \<times> real" where
  "anchorRule s anchorDist =
     (if anchorCondition s anchorDist then (True, ''anchor distance'', maxDist s)
      else (False, [], maxAnchorDist s))"

definition dropRules :: "ext \<Rightarrow> robot \<Rightarrow> real \<Rightarrow> py_error + bool \<times> string \<times> real" where
  "dropRules E s anchorDist =
     (case anchorRule s anchorDist of
        (dropBeacon, dropReason, checkDist) \<Rightarrow>
          if agent_atnode s then Inr (True, ''at junction'', junctionDist s)
          else if turnDetect s \<and> int (length (history s)) = hislen s then
            (case turnCondition E s of
               Inl e \<Rightarrow> Inl e
             | Inr turned \<Rightarrow>
                 if turned then Inr (True, ''at turn'', junctionDist s + 5)
                 else Inr (dropBeacon, dropReason, checkDist))
          else Inr (dropBeacon, dropReason, checkDist))"

text \<open>The reclassification after \<^verbatim>\<open>beaconDistCheck\<close>.\<close>

definition reclassify :: "int \<Rightarrow> string \<Rightarrow> string" where
  "reclassify nDB dropReason =
     (if nDB > 0 \<and> (dropReason = [] \<or> dropReason = ''anchor distance'')
      then ''beacon distance'' else dropReason)"

text \<open>The test that guards \<^verbatim>\<open>dropBeacon = False\<close> after the first beacon drop.\<close>

definition deadbandCondition :: "robot \<Rightarrow> pose \<Rightarrow> int \<Rightarrow> real \<Rightarrow> bool" where
  "deadbandCondition s p nB anchorDist =
     (nB > 0 \<and> anchorDist < maxAnchorDist s \<and> p_y (position p) < 1 \<and> p_y (position p) > 1)"

definition deadband :: "robot \<Rightarrow> pose \<Rightarrow> int \<Rightarrow> real \<Rightarrow> bool \<Rightarrow> bool" where
  "deadband s p nB anchorDist dropBeacon =
     (if deadbandCondition s p nB anchorDist then False else dropBeacon)"

text \<open>
  The decision of an in-comm check that was not cut short by the minimum anchor distance:
  \<^verbatim>\<open>(dropBeacon, dropReason, checkDist)\<close> as they stand before \<^verbatim>\<open>if dropBeacon:\<close>.
\<close>

definition dropDecision :: "ext \<Rightarrow> robot \<Rightarrow> pose \<Rightarrow> real \<Rightarrow> py_error + bool \<times> string \<times> real" where
  "dropDecision E s p anchorDist =
     (case dropRules E s anchorDist of
        Inl e \<Rightarrow> Inl e
      | Inr (dropBeacon, dropReason, checkDist) \<Rightarrow>
          (case beaconDistCheck E s p checkDist dropBeacon of
             (dropBeacon', nB, nDB) \<Rightarrow>
               Inr (deadband s p nB anchorDist dropBeacon', reclassify nDB dropReason, checkDist)))"

text \<open>The loop with break over \<^verbatim>\<open>bl_beacons\<close>: was a reverse drop tried near here.\<close>

fun triedNearby :: "(point \<Rightarrow> point \<Rightarrow> real) \<Rightarrow> point \<Rightarrow> real \<Rightarrow> point list \<Rightarrow> bool" where
  "triedNearby gd p d [] = False"
| "triedNearby gd p d (bl # bls) = (if gd p bl < d then True else triedNearby gd p d bls)"

text \<open>The branch \<^verbatim>\<open>if self.base.incomm\<close>.\<close>

definition commConnected :: "ext \<Rightarrow> robot \<Rightarrow> py_error + robot" where
  "commConnected E s =
     (let p = agent_odometry s;
          s1 = s\<lparr>beaconCommLost := 0, reverseDrop := reverseDropEnable s\<rparr>;
          anchorDist = getDist E (position p) (anchorPos s1)
      in if anchorDist < minAnchorDist s1 then Inr s1
         else
           (case dropDecision E s1 p anchorDist of
              Inl e \<Rightarrow> Inl e
            | Inr (dropBeacon, dropReason, checkDist) \<Rightarrow>
                if dropBeacon then
                  (if delayDrop s1 then Inr (s1\<lparr>delayDrop := False\<rparr>)
                   else Inr (deployBeacon E True dropReason s1))
                else Inr s1))"

text \<open>The branch \<^verbatim>\<open>elif self.reverseDrop\<close>.\<close>

definition commLost :: "ext \<Rightarrow> robot \<Rightarrow> robot" where
  "commLost E s =
     (let p = agent_odometry s;
          s1 = s\<lparr>beaconCommLost := beaconCommLost s + 1\<rparr>
      in if beaconCommLost s1 > 5 then
           (let s2 = (if triedNearby (getDist E) (position p) (junctionDist s1) (bl_beacons s1)
                      then s1\<lparr>reverseDrop := False\<rparr> else s1);
                s3 = (if reverseDrop s2
                      then s2\<lparr>mode := ''Deploy'', bl_beacons := bl_beacons s2 @ [position p]\<rparr>
                      else s2)
            in s3\<lparr>beaconCommLost := 0\<rparr>)
         else s1)"

definition beaconCheck :: "ext \<Rightarrow> robot \<Rightarrow> py_error + robot" where
  "beaconCheck E s =
     (if numBeacons s > 0 then
        (if base_incomm s then commConnected E s
         else if reverseDrop s then Inr (commLost E s)
         else Inr s)
      else Inr s)"

text \<open>
  The states a robot can be in later than a given one: a beacon check has run, or any
  other part of the program (the message handlers, the rest of \<^verbatim>\<open>run\<close>) has changed the
  state. Nothing but \<^verbatim>\<open>beaconCheck\<close> writes \<^verbatim>\<open>bl_beacons\<close>.
\<close>

inductive later :: "ext \<Rightarrow> robot \<Rightarrow> robot \<Rightarrow> bool" for E :: ext where
  now: "later E s s"
| check: "later E s s1 \<Longrightarrow> beaconCheck E s1 = Inr s2 \<Longrightarrow> later E s s2"
| other: "later E s s1 \<Longrightarrow> bl_beacons s2 = bl_beacons s1 \<Longrightarrow> later E s s2"

section \<open>run: the status checks\<close>

text \<open>
  \<^verbatim>\<open>run\<close> is one tick: it updates the history, runs the status checks, handles a task
  of the GUI, runs \<^verbatim>\<open>beaconCheck\<close>, merges the artifacts of the neighbors (a method of the
  parent class), and chooses the goal. The status checks and the choice of the goal are
  modelled here, each as the function of the state it is; the GUI task and the neighbor
  loop are not.
\<close>

text \<open>
  The module-level imports of robot.py are \<^verbatim>\<open>rospy\<close>, \<^verbatim>\<open>Point\<close>,
  \<^verbatim>\<open>OriginDetectionStatus\<close>, six functions of util.helpers and \<^verbatim>\<open>BOBCAT\<close>. The module
  \<^verbatim>\<open>math\<close> is not among them, so the name \<^verbatim>\<open>math\<close> is unbound in \<^verbatim>\<open>run\<close> and
  \<^verbatim>\<open>math.degrees\<close> has no value: reading it raises NameError.
\<close>

definition math_degrees :: "(real \<Rightarrow> real) option" where
  "math_degrees = None"

text \<open>
  The stopped test on the oldest and the newest pose of the history.
  \<^verbatim>\<open>history[0]\<close> raises IndexError on an empty history. The \<^verbatim>\<open>and\<close> stops short at a
  displacement of 0.5 or more; below 0.5 the heading test is evaluated and reads
  \<^verbatim>\<open>math.degrees\<close>.
\<close>

definition stuckCondition :: "ext \<Rightarrow> robot \<Rightarrow> py_error + bool" where
  "stuckCondition E s =
     (case history s of
        [] \<Rightarrow> Inl IndexError
      | oldest # _ \<Rightarrow>
          if getDist E (position oldest) (position (last (history s))) < 0.5 then
            (case math_degrees of
               None \<Rightarrow> Inl NameError
             | Some deg \<Rightarrow>
                 Inr (\<bar>angleDiff E (deg (getYaw E (orientation oldest)))
                         (deg (getYaw E (orientation (last (history s)))))\<bar> < 60))
          else Inr False)"

text \<open>The if and else that count the stuck ticks and collect the goals.\<close>

definition stuckUpdate :: "ext \<Rightarrow> robot \<Rightarrow> py_error + robot" where
  "stuckUpdate E s =
     (case stuckCondition E s of
        Inl e \<Rightarrow> Inl e
      | Inr stopped \<Rightarrow>
          if stopped
          then Inr (s\<lparr>stuck := stuck s + 1,
                      blgoals := blgoals s @ [position (agent_goal_pose s)]\<rparr>)
          else Inr (s\<lparr>stuck := 0, blgoals := []\<rparr>))"

text \<open>The outlier filter: the pending goals closer than twice the radius to their average.\<close>

definition newgoals :: "ext \<Rightarrow> robot \<Rightarrow> point list" where
  "newgoals E s =
     (let avgGoal = averagePosition E (blgoals s)
      in filter (\<lambda>goal. getDist E goal avgGoal < deconflictRadius s * 2) (blgoals s))"

text \<open>
  The commit. \<^verbatim>\<open>len(newgoals) > self.hislen / 2\<close> compares an integer with half of an
  integer: floor division and true division then decide alike.
\<close>

definition isOrigin :: "point \<Rightarrow> bool" where
  "isOrigin avgGoal = (p_x avgGoal = 0 \<and> p_y avgGoal = 0 \<and> p_z avgGoal = 0)"

definition commitBlacklist :: "ext \<Rightarrow> robot \<Rightarrow> robot" where
  "commitBlacklist E s =
     (if int (length (newgoals E s)) > hislen s div 2 then
        (let avgGoal = averagePosition E (newgoals E s)
         in if \<not> isOrigin avgGoal
            then (emit (Call_addBlacklist avgGoal) s)\<lparr>blgoals := []\<rparr>
            else s)
      else s)"

text \<open>\<^verbatim>\<open>if self.stuck >= self.stopCheck\<close>; the remainder by a zero stopCheck raises.\<close>

definition stuckReport :: "ext \<Rightarrow> robot \<Rightarrow> py_error + robot" where
  "stuckReport E s =
     (if stuck s \<ge> stopCheck s then
        (if stopCheck s = 0 then Inl ZeroDivisionError
         else Inr (emit (Call_updateStatus ''Stuck'')
                     (if stuck s mod stopCheck s = 0 then commitBlacklist E s else s)))
      else Inr s)"

text \<open>The guards under which a tick counts stuck ticks.\<close>

definition stuckChecked :: "robot \<Rightarrow> bool" where
  "stuckChecked s =
     ((startedMission s \<and> agent_status s \<noteq> ''Stop'' \<and> CHR ''A'' \<notin> set (robot_id s)) \<and>
      (agent_goal_path s \<noteq> [] \<and> int (length (history s)) = hislen s))"

definition statusCheck :: "ext \<Rightarrow> robot \<Rightarrow> py_error + robot" where
  "statusCheck E s =
     (if startedMission s \<and> agent_status s \<noteq> ''Stop'' \<and> CHR ''A'' \<notin> set (robot_id s) then
        (if agent_goal_path s \<noteq> [] \<and> int (length (history s)) = hislen s then
           (case stuckUpdate E s of
              Inl e \<Rightarrow> Inl e
            | Inr s' \<Rightarrow> stuckReport E s')
         else if agent_goal_path s = [] then Inr (emit (Call_updateStatus ''No Path'') s)
         else Inr s)
      else Inr s)"

section \<open>artifactCheckReport\<close>

definition artifactCheckReport :: "robot \<Rightarrow> robot" where
  "artifactCheckReport s =
     (if \<not> report s \<and>
         list_ex (\<lambda>a. agent_id a = robot_id s \<and> \<not> reported a) (map snd (artifacts s))
      then s\<lparr>report := True\<rparr> else s)"

section \<open>run: the choice of the goal\<close>

text \<open>The branch \<^verbatim>\<open>elif self.mode == 'Deploy'\<close>.\<close>

definition reverseDeploy :: "ext \<Rightarrow> robot \<Rightarrow> robot" where
  "reverseDeploy E s =
     (if base_incomm s then
        (if regainBase s > 5 then
           (case beaconDistCheck E s (agent_odometry s) (junctionDist s) True of
              (dropBeacon, nB, nDB) \<Rightarrow>
                (if dropBeacon then deployBeacon E True ''Regain comms'' s else s)
                  \<lparr>mode := ''Explore'', regainBase := 0\<rparr>)
         else s\<lparr>regainBase := regainBase s + 1\<rparr>)
      else emit (Call_setGoalPoint ''Home'')
             (emit (Call_updateStatus ''Regain comms deploy'') (s\<lparr>regainBase := 0\<rparr>)))"

text \<open>The mode arbitration: Home, Stop, Deploy, Goal, and exploration otherwise.\<close>

definition modeArbitration :: "ext \<Rightarrow> robot \<Rightarrow> robot" where
  "modeArbitration E s =
     (if mode s = ''Home'' then emit (Call_setGoalPoint ''Home'') s
      else if mode s = ''Stop'' then emit Call_stop s
      else if mode s = ''Deploy'' then reverseDeploy E s
      else if mode s = ''Goal'' then
        (if getDist E (position (agent_odometry s)) (position (agent_guiGoalPoint s)) < 1
         then deconflictExplore E (s\<lparr>mode := ''Explore''\<rparr>)
         else emit (Call_setGoalPoint ''guiCommand'') s)
      else deconflictExplore E s)"

text \<open>The map reset of an aerial robot; \<^verbatim>\<open>now\<close> is \<^verbatim>\<open>rospy.get_rostime()\<close>.\<close>

definition aerialReset :: "nat \<Rightarrow> robot \<Rightarrow> robot" where
  "aerialReset now s =
     (if isAerial s \<and> \<not> launch_status s \<and> \<not> agent_reset_ignore s then
        s\<lparr>agent_reset_stamp := now, agent_reset_agent := robot_id s,
          agent_reset_ignore := True, agent_reset_robots := True, agent_guiStamp := now\<rparr>
      else if isAerial s \<and> launch_status s \<and> agent_reset_ignore s then
        s\<lparr>agent_reset_agent := robot_id s, agent_reset_ignore := False,
          agent_reset_robots := True, agent_reset_stamp := now, agent_guiStamp := now\<rparr>
      else s)"

text \<open>\<^verbatim>\<open>for artifact in self.artifacts.values(): artifact.reported = True\<close>.\<close>

definition allReported :: "(string \<times> artifact) list \<Rightarrow> (string \<times> artifact) list" where
  "allReported as = map (\<lambda>(k, a). (k, a\<lparr>reported := True\<rparr>)) as"

text \<open>
  The end of \<^verbatim>\<open>run\<close>, from \<^verbatim>\<open>if self.report\<close> on. The report branch returns at once;
  every other path goes through the mode arbitration and the aerial reset.
\<close>

definition selectGoal :: "ext \<Rightarrow> nat \<Rightarrow> robot \<Rightarrow> robot" where
  "selectGoal E now s =
     (if report s then
        (if solo s \<or> base_lastArtifact s = agent_lastArtifact s
         then aerialReset now
                (modeArbitration E (s\<lparr>report := False, artifacts := allReported (artifacts s)\<rparr>))
         else emit (Call_setGoalPoint ''Report'') s)
      else aerialReset now (modeArbitration E s))"

section \<open>Sample states and collaborators\<close>

text \<open>\<^verbatim>\<open>Point()\<close>, \<^verbatim>\<open>Quaternion()\<close> and \<^verbatim>\<open>Pose()\<close>: all fields zero.\<close>

definition Point0 :: point where
  "Point0 = \<lparr>p_x = 0, p_y = 0, p_z = 0\<rparr>"

definition Pose0 :: pose where
  "Pose0 = \<lparr>position = Point0, orientation = \<lparr>q_x = 0, q_y = 0, q_z = 0, q_w = 0\<rparr>\<rparr>"

definition poseAt :: "real \<Rightarrow> real \<Rightarrow> pose" where
  "poseAt a b = Pose0\<lparr>position := \<lparr>p_x = a, p_y = b, p_z = 0\<rparr>\<rparr>"

text \<open>
  The robot as \<^verbatim>\<open>__init__\<close> leaves it with the default parameters and a rate of 1 (a
  history of 10 poses), named X1, with no beacons and no artifacts.
\<close>

definition init_robot :: robot where
  "init_robot =
     \<lparr>robot_id = ''X1'', deconflictRadius = 2.5, stopCheck = 30, maxAnchorDist = 100,
      maxDist = 30, junctionDist = 10, turnDetect = True, delayDrop = False,
      reverseDropEnable = False, reverseDrop = False,
      anchorPos = \<lparr>p_x = 1, p_y = 0, p_z = 0.1\<rparr>,
      startedMission = False, initialPose = None, bl_beacons = [], history = [],
      hislen = 10, minAnchorDist = 10, report = False, beaconCommLost = 0, regainBase = 0,
      mode = ''Explore'', stuck = 0, planner_status = True, launch_status = True,
      isAerial = False, beacons = [], numBeacons = 0, blgoals = [], artifacts = [],
      solo = False, useSimComms = False, useVirtual = False, useTraj = False,
      stopStart = False, agent_status = ''Explore'', agent_odometry = Pose0,
      agent_goal_pose = Pose0, agent_goal_path = [], agent_exploreGoal = Pose0,
      agent_explorePath = [], agent_atnode = False, agent_lastArtifact = [],
      agent_guiGoalPoint = Pose0, agent_reset_stamp = 0, agent_reset_agent = [],
      agent_reset_ignore = False, agent_reset_robots = False, agent_guiStamp = 0,
      base_incomm = True, base_lastArtifact = [], events = []\<rparr>"

text \<open>A deployed beacon of another robot at \<^verbatim>\<open>(a, b, 0)\<close>, and a beacon this robot carries.\<close>

definition activeBeaconAt :: "string \<Rightarrow> real \<Rightarrow> real \<Rightarrow> string \<times> beacon" where
  "activeBeaconAt ident a b =
     (ident, \<lparr>beacon_id = ident, owner = False, active = True,
              pos = \<lparr>p_x = a, p_y = b, p_z = 0\<rparr>, simcomm = True\<rparr>)"

definition ownedBeacon :: "string \<Rightarrow> string \<times> beacon" where
  "ownedBeacon ident =
     (ident, \<lparr>beacon_id = ident, owner = True, active = False, pos = Point0, simcomm = False\<rparr>)"

text \<open>
  Modelled from the spec: \<^verbatim>\<open>getDist\<close> of util.helpers, which is not part of robot.py.
  The spec speaks of the distance between two positions: the Euclidean distance.
\<close>

definition euclidean :: "point \<Rightarrow> point \<Rightarrow> real" where
  "euclidean a b = sqrt ((p_x a - p_x b)\<^sup>2 + (p_y a - p_y b)\<^sup>2 + (p_z a - p_z b)\<^sup>2)"

text \<open>
  Modelled from the spec: \<^verbatim>\<open>averagePosition\<close> of util.helpers, which is not part of
  robot.py. The spec speaks of the mean of the pending goals: the mean of each coordinate.
\<close>

definition mean :: "real list \<Rightarrow> real" where
  "mean rs = sum_list rs / real (length rs)"

definition meanPosition :: "point list \<Rightarrow> point" where
  "meanPosition ps = \<lparr>p_x = mean (map p_x ps), p_y = mean (map p_y ps), p_z = mean (map p_z ps)\<rparr>"

text \<open>
  Collaborators for the concrete runs below: the Euclidean distance and the mean position;
  the yaw of a rotation about the vertical axis, angles subtracted, the mean pose of a
  window (its mean position and its mean yaw in degrees); a goal deconfliction that keeps
  the goal, and a deployment mechanism that answers.
\<close>

definition planarYaw :: "quaternion \<Rightarrow> real" where
  "planarYaw q = 2 * arctan (q_z q / q_w q)"

definition sample_ext :: ext where
  "sample_ext =
     \<lparr>getDist = euclidean,
      getYaw = planarYaw,
      angleDiff = (\<lambda>a b. a - b),
      averagePosition = meanPosition,
      averagePose = (\<lambda>ps. (meanPosition (map position ps),
                             degrees (mean (map (\<lambda>p. planarYaw (orientation p)) ps)))),
      deconflictGoals = (\<lambda>s. (agent_goal_pose s, agent_goal_path s)),
      mechanism = (\<lambda>deploy p. Acknowledged)\<rparr>"

text \<open>A pose at \<^verbatim>\<open>(a, b, 0)\<close> turned a quarter turn to the left.\<close>

definition poseLeftAt :: "real \<Rightarrow> real \<Rightarrow> pose" where
  "poseLeftAt a b =
     \<lparr>position = \<lparr>p_x = a, p_y = b, p_z = 0\<rparr>,
      orientation = \<lparr>q_x = 0, q_y = 0, q_z = 1, q_w = 1\<rparr>\<rparr>"

text \<open>
  A robot far from the anchor, at a junction, whose history of ten poses shows a left turn
  (the first four poses at rest, the last four turned and moving); it carries one beacon.
\<close>

definition corner_robot :: robot where
  "corner_robot = init_robot
     \<lparr>history := [poseAt 150 0, poseAt 150 0, poseAt 150 0, poseAt 150 0, poseAt 152 0,
                  poseAt 154 0, poseLeftAt 155 0, poseLeftAt 156 0, poseLeftAt 157 0,
                  poseLeftAt 158 0],
      agent_odometry := poseLeftAt 158 0, agent_atnode := True, numBeacons := 1,
      beacons := [ownedBeacon ''B1'']\<rparr>"

text \<open>
  Two losses of comm. A robot out of comm for five ticks at \<^verbatim>\<open>(50, 0)\<close>, reverse drop
  enabled, one beacon on board; the same robot after its reverse-drop attempt; then back in
  comm near the anchor; then out of comm for five ticks again at \<^verbatim>\<open>(53, 4)\<close>, 5 away from
  the first site.
\<close>

definition lost_robot :: robot where
  "lost_robot = init_robot
     \<lparr>numBeacons := 1, beacons := [ownedBeacon ''B1''], reverseDropEnable := True,
      reverseDrop := True, base_incomm := False, beaconCommLost := 5,
      agent_odometry := poseAt 50 0\<rparr>"

definition attempted_robot :: robot where
  "attempted_robot = lost_robot
     \<lparr>beaconCommLost := 0, mode := ''Deploy'',
      bl_beacons := [\<lparr>p_x = 50, p_y = 0, p_z = 0\<rparr>]\<rparr>"

definition regained_robot :: robot where
  "regained_robot = attempted_robot\<lparr>base_incomm := True, agent_odometry := Pose0\<rparr>"

definition second_robot :: robot where
  "second_robot = attempted_robot\<lparr>agent_odometry := poseAt 53 4, beaconCommLost := 5\<rparr>"

text \<open>
  A robot in mode Home with an artifact report the base has not seen yet.
\<close>

definition report_robot :: robot where
  "report_robot = init_robot\<lparr>report := True, agent_lastArtifact := ''X1_3'',
     base_lastArtifact := ''X1_2'', mode := ''Home''\<rparr>"




text \<open>
  Robots at a multiple of their stuck-time threshold: one with the pending goals
  \<^verbatim>\<open>(0,0), (0,0), (0,0), (100,100)\<close> and a threshold of 4, one with six pending goals at
  \<^verbatim>\<open>(1,1)\<close>, a seventh at \<^verbatim>\<open>(8,1)\<close> and a threshold of 7. The radius is 2.5 and the
  history holds 10 poses.
\<close>

definition outlier_robot :: robot where
  "outlier_robot = init_robot
     \<lparr>startedMission := True, stopCheck := 4, stuck := 4,
      blgoals := [\<lparr>p_x = 0, p_y = 0, p_z = 0\<rparr>, \<lparr>p_x = 0, p_y = 0, p_z = 0\<rparr>,
                  \<lparr>p_x = 0, p_y = 0, p_z = 0\<rparr>, \<lparr>p_x = 100, p_y = 100, p_z = 0\<rparr>]\<rparr>"

definition cluster_robot :: robot where
  "cluster_robot = init_robot
     \<lparr>startedMission := True, stopCheck := 7, stuck := 7,
      blgoals := [\<lparr>p_x = 1, p_y = 1, p_z = 0\<rparr>, \<lparr>p_x = 1, p_y = 1, p_z = 0\<rparr>,
                  \<lparr>p_x = 1, p_y = 1, p_z = 0\<rparr>, \<lparr>p_x = 1, p_y = 1, p_z = 0\<rparr>,
                  \<lparr>p_x = 1, p_y = 1, p_z = 0\<rparr>, \<lparr>p_x = 1, p_y = 1, p_z = 0\<rparr>,
                  \<lparr>p_x = 8, p_y = 1, p_z = 0\<rparr>]\<rparr>"

section \<open>Properties of beaconDistCheck\<close>

lemma beaconDistLoop_eq:
  "beaconDistLoop gd p c bs (d, n, m) =
     (d \<or> filter (\<lambda>b. active b \<and> gd (position p) (pos b) > c) bs \<noteq> [],
      n + int (length (filter active bs)),
      m + int (length (filter (\<lambda>b. active b \<and> gd (position p) (pos b) > c) bs)))"
  by (induction bs arbitrary: d n m) auto

lemma length_active_split:
  "length (filter active bs) =
     length (filter (\<lambda>b. active b \<and> \<not> gd (position p) (pos b) > c) bs)
     + length (filter (\<lambda>b. active b \<and> gd (position p) (pos b) > c) bs)"
  by (induction bs) auto

lemma beaconDistCheck_eq:
  "beaconDistCheck E s p c d =
     (if beaconsInRange E s p c \<noteq> [] then False else d \<or> beaconsBeyond E s p c \<noteq> [],
      int (length (activeBeacons s)), int (length (beaconsBeyond E s p c)))"
proof -
  define bs where "bs = map snd (beacons s)"
  define near where "near = filter (\<lambda>b. active b \<and> \<not> getDist E (position p) (pos b) > c) bs"
  define far where "far = filter (\<lambda>b. active b \<and> getDist E (position p) (pos b) > c) bs"
  have len: "length (filter active bs) = length near + length far"
    unfolding near_def far_def by (rule length_active_split)
  have pos: "(int (length near) + int (length far) - int (length far) > 0) = (near \<noteq> [])"
    by simp
  have "beaconDistCheck E s p c d =
          (if near \<noteq> [] then False else d \<or> far \<noteq> [],
           int (length (filter active bs)), int (length far))"
    unfolding beaconDistCheck_def bs_def [symmetric] beaconDistLoop_eq far_def [symmetric]
    using pos by (simp add: len)
  then show ?thesis
    by (simp add: beaconsInRange_def beaconsBeyond_def activeBeacons_def near_def far_def bs_def)
qed

text \<open>Euclidean distances compare with a threshold through the squares.\<close>

lemma euclidean_less:
  assumes "0 \<le> c"
  shows "(euclidean a b < c) =
           ((p_x a - p_x b)\<^sup>2 + (p_y a - p_y b)\<^sup>2 + (p_z a - p_z b)\<^sup>2 < c\<^sup>2)"
proof -
  from assms have "c = sqrt (c\<^sup>2)" by simp
  then have "(euclidean a b < c) = (euclidean a b < sqrt (c\<^sup>2))" by simp
  also have "\<dots> = ((p_x a - p_x b)\<^sup>2 + (p_y a - p_y b)\<^sup>2 + (p_z a - p_z b)\<^sup>2 < c\<^sup>2)"
    unfolding euclidean_def by (rule real_sqrt_less_iff)
  finally show ?thesis .
qed

lemma euclidean_greater:
  assumes "0 \<le> c"
  shows "(c < euclidean a b) =
           (c\<^sup>2 < (p_x a - p_x b)\<^sup>2 + (p_y a - p_y b)\<^sup>2 + (p_z a - p_z b)\<^sup>2)"
proof -
  from assms have "c = sqrt (c\<^sup>2)" by simp
  then have "(c < euclidean a b) = (sqrt (c\<^sup>2) < euclidean a b)" by simp
  also have "\<dots> = (c\<^sup>2 < (p_x a - p_x b)\<^sup>2 + (p_y a - p_y b)\<^sup>2 + (p_z a - p_z b)\<^sup>2)"
    unfolding euclidean_def by (rule real_sqrt_less_iff)
  finally show ?thesis .
qed

lemma active_beyond:
  "activeBeacons s \<noteq> [] \<Longrightarrow> beaconsInRange E s p c = [] \<Longrightarrow> beaconsBeyond E s p c \<noteq> []"
  unfolding activeBeacons_def beaconsInRange_def beaconsBeyond_def
  by (auto simp add: filter_empty_conv)

lemma no_active_none:
  "activeBeacons s = [] \<Longrightarrow> beaconsInRange E s p c = [] \<and> beaconsBeyond E s p c = []"
  unfolding activeBeacons_def beaconsInRange_def beaconsBeyond_def
  by (auto simp add: filter_empty_conv)

text \<open>
  Claim C4. Whenever more than one active beacon lies within the check distance of the
  pose (its distance does not exceed the check distance), \<^verbatim>\<open>beaconDistCheck\<close> returns
  \<^verbatim>\<open>dropBeacon = False\<close>, whatever flag the caller passed in, so also for a flag an
  upstream rule had set.
\<close>

theorem beaconDistCheck_redundant:
  "1 < length (beaconsInRange E s p checkDist) \<Longrightarrow>
   fst (beaconDistCheck E s p checkDist dropBeacon) = False"
  by (auto simp add: beaconDistCheck_eq)

text \<open>Two active beacons at distances 3 and 4, a check distance of 10, the flag set.\<close>

theorem beaconDistCheck_redundant_witness:
  "1 < length (beaconsInRange sample_ext
         (init_robot\<lparr>beacons := [activeBeaconAt ''B1'' 3 0, activeBeaconAt ''B2'' 0 4]\<rparr>) Pose0 10) \<and>
   fst (beaconDistCheck sample_ext
         (init_robot\<lparr>beacons := [activeBeaconAt ''B1'' 3 0, activeBeaconAt ''B2'' 0 4]\<rparr>) Pose0 10 True) = False"
proof -
  have h: "1 < length (beaconsInRange sample_ext
         (init_robot\<lparr>beacons := [activeBeaconAt ''B1'' 3 0, activeBeaconAt ''B2'' 0 4]\<rparr>) Pose0 10)"
    by (simp add: beaconsInRange_def sample_ext_def activeBeaconAt_def Pose0_def Point0_def
        euclidean_greater)
  from h beaconDistCheck_redundant [OF h, of True] show ?thesis by simp
qed

text \<open>
  Claim C10. For every call of \<^verbatim>\<open>beaconDistCheck\<close>: when at least one active beacon, be
  it a single one, is within the check distance, the returned flag is false; when there
  are active beacons and all of them are beyond the check distance, it is true, whatever
  the flag passed in; when no beacon is active, the flag passed in is returned.
\<close>

theorem beaconDistCheck_cases:
  "(beaconsInRange E s p c \<noteq> [] \<longrightarrow> fst (beaconDistCheck E s p c d) = False) \<and>
   (activeBeacons s \<noteq> [] \<and> beaconsInRange E s p c = [] \<longrightarrow>
      fst (beaconDistCheck E s p c d) = True) \<and>
   (activeBeacons s = [] \<longrightarrow> fst (beaconDistCheck E s p c d) = d)"
  by (auto simp add: beaconDistCheck_eq dest: active_beyond no_active_none)

text \<open>
  One beacon at distance 5 with the flag set; one beacon at distance 50 with the flag
  clear; no beacon, with either flag. The check distance is 10.
\<close>

theorem beaconDistCheck_cases_witness:
  "beaconsInRange sample_ext (init_robot\<lparr>beacons := [activeBeaconAt ''B1'' 3 4]\<rparr>) Pose0 10 \<noteq> [] \<and>
   length (beaconsInRange sample_ext (init_robot\<lparr>beacons := [activeBeaconAt ''B1'' 3 4]\<rparr>) Pose0 10) = 1 \<and>
   fst (beaconDistCheck sample_ext (init_robot\<lparr>beacons := [activeBeaconAt ''B1'' 3 4]\<rparr>) Pose0 10 True) = False \<and>
   activeBeacons (init_robot\<lparr>beacons := [activeBeaconAt ''B1'' 30 40]\<rparr>) \<noteq> [] \<and>
   beaconsInRange sample_ext (init_robot\<lparr>beacons := [activeBeaconAt ''B1'' 30 40]\<rparr>) Pose0 10 = [] \<and>
   fst (beaconDistCheck sample_ext (init_robot\<lparr>beacons := [activeBeaconAt ''B1'' 30 40]\<rparr>) Pose0 10 False) = True \<and>
   activeBeacons init_robot = [] \<and>
   fst (beaconDistCheck sample_ext init_robot Pose0 10 True) = True \<and>
   fst (beaconDistCheck sample_ext init_robot Pose0 10 False) = False"
proof -
  let ?near = "init_robot\<lparr>beacons := [activeBeaconAt ''B1'' 3 4]\<rparr>"
  let ?far = "init_robot\<lparr>beacons := [activeBeaconAt ''B1'' 30 40]\<rparr>"
  have near: "beaconsInRange sample_ext ?near Pose0 10 \<noteq> []"
    and one: "length (beaconsInRange sample_ext ?near Pose0 10) = 1"
    by (simp_all add: beaconsInRange_def sample_ext_def activeBeaconAt_def Pose0_def Point0_def
        euclidean_greater)
  have far: "activeBeacons ?far \<noteq> [] \<and> beaconsInRange sample_ext ?far Pose0 10 = []"
    by (simp add: activeBeacons_def beaconsInRange_def sample_ext_def activeBeaconAt_def
        Pose0_def Point0_def euclidean_greater)
  have none: "activeBeacons init_robot = []"
    by (simp add: activeBeacons_def init_robot_def)
  from near one far none
    beaconDistCheck_cases [of sample_ext ?near Pose0 10 True]
    beaconDistCheck_cases [of sample_ext ?far Pose0 10 False]
    beaconDistCheck_cases [of sample_ext init_robot Pose0 10 True]
    beaconDistCheck_cases [of sample_ext init_robot Pose0 10 False]
  show ?thesis by simp
qed

section \<open>Properties of deployBeacon\<close>

lemma firstAvailable_None:
  "filter (\<lambda>b. owner b \<and> \<not> active b) bs = [] \<Longrightarrow> firstAvailable bs = None"
  by (induction bs) (auto split: if_splits)

text \<open>
  Claim C7. When no beacon is owned and inactive, \<^verbatim>\<open>deployBeacon\<close> deploys nothing (no
  event is sent and no beacon changes), sets the owned-beacon count to exactly zero and
  sets the mode to Explore.
\<close>

theorem deployBeacon_no_beacon:
  assumes "filter (\<lambda>b. owner b \<and> \<not> active b) (map snd (beacons s)) = []"
  shows "deployBeacon E inplace dropReason s = s\<lparr>numBeacons := 0, mode := ''Explore''\<rparr> \<and>
         numBeacons (deployBeacon E inplace dropReason s) = 0 \<and>
         mode (deployBeacon E inplace dropReason s) = ''Explore'' \<and>
         beacons (deployBeacon E inplace dropReason s) = beacons s \<and>
         events (deployBeacon E inplace dropReason s) = events s"
proof -
  from assms have "firstAvailable (map snd (beacons s)) = None"
    by (rule firstAvailable_None)
  then have "deployBeacon E inplace dropReason s = noBeacon s"
    by (simp add: deployBeacon_def)
  then show ?thesis
    by (simp add: noBeacon_def)
qed

text \<open>
  A robot in mode Home that believes it owns two beacons while its only beacon is deployed
  already.
\<close>

theorem deployBeacon_no_beacon_witness:
  "filter (\<lambda>b. owner b \<and> \<not> active b)
     (map snd (beacons (init_robot\<lparr>beacons := [activeBeaconAt ''B1'' 3 4], numBeacons := 2,
                                     mode := ''Home''\<rparr>))) = [] \<and>
   numBeacons (deployBeacon sample_ext True ''GUI Command''
     (init_robot\<lparr>beacons := [activeBeaconAt ''B1'' 3 4], numBeacons := 2, mode := ''Home''\<rparr>)) = 0 \<and>
   mode (deployBeacon sample_ext True ''GUI Command''
     (init_robot\<lparr>beacons := [activeBeaconAt ''B1'' 3 4], numBeacons := 2, mode := ''Home''\<rparr>)) = ''Explore'' \<and>
   events (deployBeacon sample_ext True ''GUI Command''
     (init_robot\<lparr>beacons := [activeBeaconAt ''B1'' 3 4], numBeacons := 2, mode := ''Home''\<rparr>)) = []"
proof -
  let ?s = "init_robot\<lparr>beacons := [activeBeaconAt ''B1'' 3 4], numBeacons := 2, mode := ''Home''\<rparr>"
  have h: "filter (\<lambda>b. owner b \<and> \<not> active b) (map snd (beacons ?s)) = []"
    by (simp add: activeBeaconAt_def)
  have e: "events ?s = []"
    by (simp add: init_robot_def)
  from h e deployBeacon_no_beacon [OF h, of sample_ext True "''GUI Command''"]
  show ?thesis by simp
qed

text \<open>
  Claim C8. When the deployment trigger raises for the selected beacon, \<^verbatim>\<open>deployBeacon\<close>
  leaves every beacon as it was, so the selected one is not marked active, and leaves the
  owned-beacon count unchanged; the same beacon is selected again by the next call.
\<close>

theorem deployBeacon_raises:
  assumes "firstAvailable (map snd (beacons s)) = Some deploy" and "deploy \<noteq> []"
    and "\<And>p. mechanism E deploy p = Raises"
  shows "beacons (deployBeacon E inplace dropReason s) = beacons s \<and>
         numBeacons (deployBeacon E inplace dropReason s) = numBeacons s \<and>
         firstAvailable (map snd (beacons (deployBeacon E inplace dropReason s))) = Some deploy"
  using assms by (simp add: deployBeacon_def Let_def emit_def)

text \<open>A robot with one owned beacon and a mechanism that always raises.\<close>

theorem deployBeacon_raises_witness:
  "firstAvailable (map snd (beacons (init_robot\<lparr>beacons := [ownedBeacon ''B1''], numBeacons := 1\<rparr>)))
     = Some ''B1'' \<and>
   beacons (deployBeacon (sample_ext\<lparr>mechanism := \<lambda>d p. Raises\<rparr>) True ''at junction''
     (init_robot\<lparr>beacons := [ownedBeacon ''B1''], numBeacons := 1\<rparr>)) = [ownedBeacon ''B1''] \<and>
   numBeacons (deployBeacon (sample_ext\<lparr>mechanism := \<lambda>d p. Raises\<rparr>) True ''at junction''
     (init_robot\<lparr>beacons := [ownedBeacon ''B1''], numBeacons := 1\<rparr>)) = 1"
proof -
  let ?s = "init_robot\<lparr>beacons := [ownedBeacon ''B1''], numBeacons := 1\<rparr>"
  let ?E = "sample_ext\<lparr>mechanism := \<lambda>d p. Raises\<rparr>"
  have h: "firstAvailable (map snd (beacons ?s)) = Some ''B1''"
    by (simp add: ownedBeacon_def)
  have n: "''B1'' \<noteq> []" by simp
  have m: "\<And>p. mechanism ?E ''B1'' p = Raises" by simp
  from h deployBeacon_raises [OF h n m, of True "''at junction''"]
  show ?thesis by simp
qed

section \<open>Properties of the drop rules\<close>

text \<open>
  Claim C9. The test that guards the suppression after the first beacon drop asks for
  \<^verbatim>\<open>position.y < 1\<close> and \<^verbatim>\<open>position.y > 1\<close> at once: it is false for every state, pose,
  beacon count and anchor distance, the branch never clears a flag, and the decision of a
  beacon check is the one \<^verbatim>\<open>beaconDistCheck\<close> returned.
\<close>

theorem deadband_never:
  "\<not> deadbandCondition s p nB anchorDist \<and>
   deadband s p nB anchorDist dropBeacon = dropBeacon \<and>
   dropDecision E s p anchorDist =
     (case dropRules E s anchorDist of
        Inl e \<Rightarrow> Inl e
      | Inr (d, r, c) \<Rightarrow>
          (case beaconDistCheck E s p c d of (d', nB, nDB) \<Rightarrow> Inr (d', reclassify nDB r, c)))"
  by (auto simp add: deadbandCondition_def deadband_def dropDecision_def
      split: sum.splits prod.splits)

text \<open>
  Claim C5. In a beacon check in comm that reaches the drop rules, when the anchor-distance
  condition, the junction condition and the turn condition all hold, the rules end with the
  reason "at junction" and the junction spacing as check distance, and the reason is still
  "at junction" after \<^verbatim>\<open>beaconDistCheck\<close> and the reclassification.
\<close>

theorem junction_first:
  assumes "agent_atnode s" and "anchorCondition s anchorDist"
    and "turnDetect s" and "int (length (history s)) = hislen s" and "turnCondition E s = Inr True"
  shows "dropRules E s anchorDist = Inr (True, ''at junction'', junctionDist s) \<and>
         (\<exists>dropBeacon. dropDecision E s p anchorDist = Inr (dropBeacon, ''at junction'', junctionDist s))"
  using assms
  by (simp add: dropRules_def dropDecision_def reclassify_def split: prod.splits)

lemma last_step:
  "euclidean \<lparr>p_x = 157, p_y = 0, p_z = 0\<rparr> \<lparr>p_x = 158, p_y = 0, p_z = 0\<rparr> = 1"
  by (simp add: euclidean_def)

lemma corner_turn: "turnCondition sample_ext corner_robot = Inr True"
  by (simp add: turnCondition_def corner_robot_def init_robot_def sample_ext_def py_int_def
      slice_to_def slice_from_def meanPosition_def mean_def poseAt_def poseLeftAt_def Pose0_def
      Point0_def planarYaw_def degrees_def arctan_one euclidean_greater last_step
      power2_eq_square)

text \<open>
  The robot at the corner: 157 from the anchor, at a junction, with a turn in its history.
\<close>

theorem junction_first_witness:
  "agent_atnode corner_robot \<and>
   anchorCondition corner_robot
     (euclidean (position (agent_odometry corner_robot)) (anchorPos corner_robot)) \<and>
   turnDetect corner_robot \<and>
   int (length (history corner_robot)) = hislen corner_robot \<and>
   turnCondition sample_ext corner_robot = Inr True \<and>
   dropDecision sample_ext corner_robot (agent_odometry corner_robot)
       (euclidean (position (agent_odometry corner_robot)) (anchorPos corner_robot))
     = Inr (True, ''at junction'', 10)"
proof -
  let ?a = "euclidean (position (agent_odometry corner_robot)) (anchorPos corner_robot)"
  have at: "agent_atnode corner_robot"
    and td: "turnDetect corner_robot"
    and full: "int (length (history corner_robot)) = hislen corner_robot"
    by (simp_all add: corner_robot_def init_robot_def)
  have anchor: "anchorCondition corner_robot ?a"
    by (simp add: anchorCondition_def corner_robot_def init_robot_def poseLeftAt_def
        euclidean_greater power2_eq_square)
  have jd: "junctionDist corner_robot = 10"
    by (simp add: corner_robot_def init_robot_def)
  have none: "beaconDistCheck sample_ext corner_robot p c True = (True, 0, 0)" for p c
    by (simp add: beaconDistCheck_def corner_robot_def ownedBeacon_def)
  from junction_first [OF at anchor td full corner_turn, of "agent_odometry corner_robot"]
  have rules: "dropRules sample_ext corner_robot ?a = Inr (True, ''at junction'', 10)"
    by (simp add: jd)
  have "dropDecision sample_ext corner_robot (agent_odometry corner_robot) ?a
          = Inr (True, ''at junction'', 10)"
    by (simp add: dropDecision_def rules none deadband_def deadbandCondition_def reclassify_def)
  with at anchor td full corner_turn show ?thesis by simp
qed

section \<open>Properties of the reverse drop\<close>

lemma triedNearby_iff: "triedNearby gd p d bls = (\<exists>bl \<in> set bls. gd p bl < d)"
  by (induction bls) auto

lemma bl_beacons_emit: "bl_beacons (emit e s) = bl_beacons s"
  by (simp add: emit_def)

lemma bl_beacons_deconflictExplore: "bl_beacons (deconflictExplore E s) = bl_beacons s"
  by (simp add: deconflictExplore_def Let_def emit_def split: prod.splits)

lemma bl_beacons_trigger: "bl_beacons (trigger d p s) = bl_beacons s"
  by (simp add: trigger_def Let_def emit_def)

lemma bl_beacons_markActive: "bl_beacons (markActive d p s) = bl_beacons s"
  by (simp add: markActive_def split: option.splits)

lemma bl_beacons_deployBeacon: "bl_beacons (deployBeacon E i r s) = bl_beacons s"
  by (simp add: deployBeacon_def noBeacon_def Let_def bl_beacons_emit bl_beacons_trigger
      bl_beacons_markActive bl_beacons_deconflictExplore split: option.splits outcome.splits)

lemma reverseDrop_deconflictExplore:
  "reverseDrop (deconflictExplore E s) = reverseDrop s"
  by (simp add: deconflictExplore_def Let_def emit_def split: prod.splits)

lemma reverseDrop_deployBeacon: "reverseDrop (deployBeacon E i r s) = reverseDrop s"
  by (simp add: deployBeacon_def noBeacon_def Let_def emit_def trigger_def markActive_def
      reverseDrop_deconflictExplore split: option.splits outcome.splits)

lemma bl_beacons_commConnected:
  "commConnected E s = Inr s' \<Longrightarrow> bl_beacons s' = bl_beacons s"
  by (auto simp add: commConnected_def Let_def bl_beacons_deployBeacon
      split: if_splits sum.splits prod.splits)

lemma reverseDrop_commConnected:
  "commConnected E s = Inr s' \<Longrightarrow> reverseDrop s' = reverseDropEnable s"
  by (auto simp add: commConnected_def Let_def reverseDrop_deployBeacon
      split: if_splits sum.splits prod.splits)

lemma bl_beacons_commLost: "set (bl_beacons s) \<subseteq> set (bl_beacons (commLost E s))"
  by (auto simp add: commLost_def Let_def)

lemma bl_beacons_beaconCheck:
  "beaconCheck E s = Inr s' \<Longrightarrow> set (bl_beacons s) \<subseteq> set (bl_beacons s')"
  using bl_beacons_commLost [of s E]
  by (auto simp add: beaconCheck_def split: if_splits dest: bl_beacons_commConnected)

lemma later_bl_beacons: "later E s s' \<Longrightarrow> set (bl_beacons s) \<subseteq> set (bl_beacons s')"
proof (induction rule: later.induct)
  case (now s)
  show ?case by simp
next
  case (check s s1 s2)
  from check.hyps(2) have "set (bl_beacons s1) \<subseteq> set (bl_beacons s2)"
    by (rule bl_beacons_beaconCheck)
  with check.IH show ?case by blast
next
  case (other s s1 s2)
  then show ?case by simp
qed

lemma lost_skip:
  assumes "numBeacons s > 0" "\<not> base_incomm s" "reverseDrop s" "beaconCommLost s + 1 > 5"
    and "\<exists>bl \<in> set (bl_beacons s). getDist E (position (agent_odometry s)) bl < junctionDist s"
  shows "beaconCheck E s = Inr (s\<lparr>beaconCommLost := 0, reverseDrop := False\<rparr>)"
  using assms by (simp add: beaconCheck_def commLost_def Let_def triedNearby_iff)

lemma lost_attempt:
  assumes "numBeacons s > 0" "\<not> base_incomm s" "reverseDrop s" "beaconCommLost s + 1 > 5"
    and "\<not> (\<exists>bl \<in> set (bl_beacons s). getDist E (position (agent_odometry s)) bl < junctionDist s)"
  shows "beaconCheck E s =
     Inr (s\<lparr>beaconCommLost := 0, mode := ''Deploy'',
            bl_beacons := bl_beacons s @ [position (agent_odometry s)]\<rparr>)"
  using assms by (simp add: beaconCheck_def commLost_def Let_def triedNearby_iff)

lemma disabled_stays: "\<not> base_incomm s \<Longrightarrow> \<not> reverseDrop s \<Longrightarrow> beaconCheck E s = Inr s"
  by (simp add: beaconCheck_def)

lemma regain_enables:
  "numBeacons s > 0 \<Longrightarrow> base_incomm s \<Longrightarrow> beaconCheck E s = Inr s' \<Longrightarrow>
   reverseDrop s' = reverseDropEnable s"
  by (simp add: beaconCheck_def reverseDrop_commConnected)

text \<open>
  Claim C6. Out of comm with reverse drop enabled and a beacon on board, on the tick the
  loss counter exceeds 5: when a recorded reverse-drop site is closer than the junction
  spacing to the current position, nothing is attempted (mode and sites stay) and reverse
  drop is switched off; otherwise the mode becomes Deploy and the position is recorded as a
  site. While out of comm, a switched-off reverse drop stays off and the check changes
  nothing; a check in comm sets it back to the configured value. Hence, once a site is
  recorded, a later loss of comm whose candidate position is closer than the junction
  spacing to that site attempts no reverse drop.
\<close>

theorem reverse_drop_dedup:
  "(numBeacons s > 0 \<and> \<not> base_incomm s \<and> reverseDrop s \<and> beaconCommLost s + 1 > 5 \<and>
    (\<exists>bl \<in> set (bl_beacons s). getDist E (position (agent_odometry s)) bl < junctionDist s)
    \<longrightarrow> beaconCheck E s = Inr (s\<lparr>beaconCommLost := 0, reverseDrop := False\<rparr>)) \<and>
   (numBeacons s > 0 \<and> \<not> base_incomm s \<and> reverseDrop s \<and> beaconCommLost s + 1 > 5 \<and>
    \<not> (\<exists>bl \<in> set (bl_beacons s). getDist E (position (agent_odometry s)) bl < junctionDist s)
    \<longrightarrow> beaconCheck E s =
          Inr (s\<lparr>beaconCommLost := 0, mode := ''Deploy'',
                 bl_beacons := bl_beacons s @ [position (agent_odometry s)]\<rparr>)) \<and>
   (\<not> base_incomm s \<and> \<not> reverseDrop s \<longrightarrow> beaconCheck E s = Inr s) \<and>
   (numBeacons s > 0 \<and> base_incomm s \<and> beaconCheck E s = Inr s'
    \<longrightarrow> reverseDrop s' = reverseDropEnable s) \<and>
   (site \<in> set (bl_beacons s) \<and> later E s s2 \<and>
    numBeacons s2 > 0 \<and> \<not> base_incomm s2 \<and> reverseDrop s2 \<and> beaconCommLost s2 + 1 > 5 \<and>
    getDist E (position (agent_odometry s2)) site < junctionDist s2
    \<longrightarrow> beaconCheck E s2 = Inr (s2\<lparr>beaconCommLost := 0, reverseDrop := False\<rparr>))"
proof (intro conjI impI)
  assume "numBeacons s > 0 \<and> \<not> base_incomm s \<and> reverseDrop s \<and> beaconCommLost s + 1 > 5 \<and>
    (\<exists>bl \<in> set (bl_beacons s). getDist E (position (agent_odometry s)) bl < junctionDist s)"
  then show "beaconCheck E s = Inr (s\<lparr>beaconCommLost := 0, reverseDrop := False\<rparr>)"
    by (simp add: lost_skip)
next
  assume "numBeacons s > 0 \<and> \<not> base_incomm s \<and> reverseDrop s \<and> beaconCommLost s + 1 > 5 \<and>
    \<not> (\<exists>bl \<in> set (bl_beacons s). getDist E (position (agent_odometry s)) bl < junctionDist s)"
  then show "beaconCheck E s =
          Inr (s\<lparr>beaconCommLost := 0, mode := ''Deploy'',
                 bl_beacons := bl_beacons s @ [position (agent_odometry s)]\<rparr>)"
    by (simp add: lost_attempt)
next
  assume "\<not> base_incomm s \<and> \<not> reverseDrop s"
  then show "beaconCheck E s = Inr s" by (simp add: disabled_stays)
next
  assume "numBeacons s > 0 \<and> base_incomm s \<and> beaconCheck E s = Inr s'"
  then show "reverseDrop s' = reverseDropEnable s" by (blast dest: regain_enables)
next
  assume a: "site \<in> set (bl_beacons s) \<and> later E s s2 \<and>
    numBeacons s2 > 0 \<and> \<not> base_incomm s2 \<and> reverseDrop s2 \<and> beaconCommLost s2 + 1 > 5 \<and>
    getDist E (position (agent_odometry s2)) site < junctionDist s2"
  then have "site \<in> set (bl_beacons s2)"
    using later_bl_beacons [of E s s2] by blast
  with a have "\<exists>bl \<in> set (bl_beacons s2).
      getDist E (position (agent_odometry s2)) bl < junctionDist s2"
    by blast
  with a show "beaconCheck E s2 = Inr (s2\<lparr>beaconCommLost := 0, reverseDrop := False\<rparr>)"
    by (simp add: lost_skip)
qed

lemma regained_check: "beaconCheck sample_ext regained_robot = Inr regained_robot"
  by (simp add: beaconCheck_def commConnected_def Let_def regained_robot_def attempted_robot_def
      lost_robot_def init_robot_def sample_ext_def Pose0_def Point0_def euclidean_less
      power2_eq_square)

lemma second_later: "later sample_ext attempted_robot second_robot"
proof -
  have "later sample_ext attempted_robot regained_robot"
    by (rule later.other [OF later.now]) (simp add: regained_robot_def)
  then have "later sample_ext attempted_robot regained_robot"
    using regained_check by (rule later.check)
  then show ?thesis
    by (rule later.other) (simp add: second_robot_def regained_robot_def)
qed

text \<open>The two losses of comm above, 5 apart with a junction spacing of 10.\<close>

theorem reverse_drop_dedup_witness:
  "0 < numBeacons second_robot \<and> \<not> base_incomm second_robot \<and> reverseDrop second_robot \<and>
   5 < beaconCommLost second_robot + 1 \<and>
   getDist sample_ext (position (agent_odometry second_robot)) \<lparr>p_x = 50, p_y = 0, p_z = 0\<rparr>
     < junctionDist second_robot \<and>
   beaconCheck sample_ext second_robot
     = Inr (second_robot\<lparr>beaconCommLost := 0, reverseDrop := False\<rparr>) \<and>
   0 < numBeacons lost_robot \<and> \<not> base_incomm lost_robot \<and> reverseDrop lost_robot \<and>
   5 < beaconCommLost lost_robot + 1 \<and> bl_beacons lost_robot = [] \<and>
   beaconCheck sample_ext lost_robot
     = Inr (lost_robot\<lparr>beaconCommLost := 0, mode := ''Deploy'',
              bl_beacons := [\<lparr>p_x = 50, p_y = 0, p_z = 0\<rparr>]\<rparr>) \<and>
   beaconCheck sample_ext (second_robot\<lparr>reverseDrop := False\<rparr>)
     = Inr (second_robot\<lparr>reverseDrop := False\<rparr>) \<and>
   0 < numBeacons regained_robot \<and> base_incomm regained_robot \<and>
   beaconCheck sample_ext regained_robot = Inr regained_robot \<and>
   reverseDrop regained_robot = reverseDropEnable regained_robot \<and>
   \<lparr>p_x = 50, p_y = 0, p_z = 0\<rparr> \<in> set (bl_beacons attempted_robot) \<and>
   later sample_ext attempted_robot second_robot"
proof -
  let ?site = "\<lparr>p_x = 50, p_y = 0, p_z = 0\<rparr>"
  have near: "getDist sample_ext (position (agent_odometry second_robot)) ?site
                < junctionDist second_robot"
    by (simp add: second_robot_def attempted_robot_def lost_robot_def init_robot_def
        sample_ext_def poseAt_def Pose0_def euclidean_less power2_eq_square)
  have s2: "0 < numBeacons second_robot" "\<not> base_incomm second_robot" "reverseDrop second_robot"
      "5 < beaconCommLost second_robot + 1"
    by (simp_all add: second_robot_def attempted_robot_def lost_robot_def init_robot_def)
  have s0: "0 < numBeacons lost_robot" "\<not> base_incomm lost_robot" "reverseDrop lost_robot"
      "5 < beaconCommLost lost_robot + 1" "bl_beacons lost_robot = []"
      "position (agent_odometry lost_robot) = ?site"
    by (simp_all add: lost_robot_def init_robot_def poseAt_def Pose0_def)
  have sr: "0 < numBeacons regained_robot" "base_incomm regained_robot"
    by (simp_all add: regained_robot_def attempted_robot_def lost_robot_def init_robot_def)
  have site: "?site \<in> set (bl_beacons attempted_robot)"
    by (simp add: attempted_robot_def)
  have off: "\<not> base_incomm (second_robot\<lparr>reverseDrop := False\<rparr>)"
      "\<not> reverseDrop (second_robot\<lparr>reverseDrop := False\<rparr>)"
    using s2 by simp_all
  note thm1 = reverse_drop_dedup [of lost_robot sample_ext attempted_robot ?site second_robot]
  note thm2 = reverse_drop_dedup [of "second_robot\<lparr>reverseDrop := False\<rparr>" sample_ext
      attempted_robot ?site second_robot]
  note thm3 = reverse_drop_dedup [of regained_robot sample_ext regained_robot ?site second_robot]
  note thm4 = reverse_drop_dedup [of attempted_robot sample_ext attempted_robot ?site second_robot]
  have c2: "beaconCheck sample_ext lost_robot
     = Inr (lost_robot\<lparr>beaconCommLost := 0, mode := ''Deploy'', bl_beacons := [?site]\<rparr>)"
    using thm1 s0 by simp
  have c3: "beaconCheck sample_ext (second_robot\<lparr>reverseDrop := False\<rparr>)
     = Inr (second_robot\<lparr>reverseDrop := False\<rparr>)"
    using thm2 off by blast
  have c4: "reverseDrop regained_robot = reverseDropEnable regained_robot"
    using thm3 sr regained_check by blast
  have c5: "beaconCheck sample_ext second_robot
     = Inr (second_robot\<lparr>beaconCommLost := 0, reverseDrop := False\<rparr>)"
    using thm4 site second_later s2 near by blast
  from near s2 s0 sr site second_later regained_check c2 c3 c4 c5 show ?thesis
    by simp
qed

section \<open>Properties of the choice of the goal\<close>

text \<open>
  Claim C3. When, at the choice of the goal, the report flag is set, the robot is not solo
  and the base's last artifact differs from the agent's, the tick calls
  \<^verbatim>\<open>setGoalPoint('Report')\<close> and returns: that call is the only event, no field changes,
  and this is so for every value of the mode field, which is left as it is.
\<close>

theorem report_first:
  assumes "report s" and "\<not> solo s" and "base_lastArtifact s \<noteq> agent_lastArtifact s"
  shows "selectGoal E now s = emit (Call_setGoalPoint ''Report'') s \<and>
         selectGoal E now (s\<lparr>mode := m\<rparr>) = (emit (Call_setGoalPoint ''Report'') s)\<lparr>mode := m\<rparr> \<and>
         events (selectGoal E now s) = events s @ [Call_setGoalPoint ''Report''] \<and>
         mode (selectGoal E now s) = mode s"
  using assms by (simp add: selectGoal_def emit_def)

text \<open>
  The reporting robot in mode Home, and in mode Stop; without the report flag the same
  robot heads home.
\<close>

theorem report_first_witness:
  "report report_robot \<and> \<not> solo report_robot \<and>
   base_lastArtifact report_robot \<noteq> agent_lastArtifact report_robot \<and>
   mode report_robot = ''Home'' \<and>
   events (selectGoal sample_ext 0 report_robot) = [Call_setGoalPoint ''Report''] \<and>
   events (selectGoal sample_ext 0 (report_robot\<lparr>mode := ''Stop''\<rparr>)) = [Call_setGoalPoint ''Report''] \<and>
   events (selectGoal sample_ext 0 (report_robot\<lparr>report := False\<rparr>)) = [Call_setGoalPoint ''Home'']"
proof -
  have h: "report report_robot" "\<not> solo report_robot"
      "base_lastArtifact report_robot \<noteq> agent_lastArtifact report_robot"
    by (simp_all add: report_robot_def init_robot_def)
  have m: "mode report_robot = ''Home''" and e: "events report_robot = []"
    by (simp_all add: report_robot_def init_robot_def)
  have other: "events (selectGoal sample_ext 0 (report_robot\<lparr>report := False\<rparr>))
                 = [Call_setGoalPoint ''Home'']"
    by (simp add: selectGoal_def modeArbitration_def aerialReset_def emit_def report_robot_def
        init_robot_def)
  from report_first [OF h, of sample_ext 0 "''Stop''"] h m e other
  show ?thesis by (simp add: emit_def)
qed

section \<open>Properties of the stuck counter\<close>








text \<open>
  Where the displacement over the window is below 0.5, the heading test reads the unbound
  \<^verbatim>\<open>math\<close>: the tick ends in NameError before a counter is written.
\<close>

lemma stuckUpdate_raises:
  assumes "history s \<noteq> []"
    and "getDist E (position (hd (history s))) (position (last (history s))) < 0.5"
  shows "stuckUpdate E s = Inl NameError"
  using assms
  by (cases "history s") (simp_all add: stuckUpdate_def stuckCondition_def math_degrees_def)

lemma statusCheck_raises:
  assumes "stuckChecked s" and "history s \<noteq> []"
    and "getDist E (position (hd (history s))) (position (last (history s))) < 0.5"
  shows "statusCheck E s = Inl NameError"
  using assms(1) by (simp add: statusCheck_def stuckChecked_def stuckUpdate_raises [OF assms(2,3)])









section \<open>Properties of the blacklist commit\<close>

lemma isOrigin_Point0: "isOrigin a = (a = Point0)"
  by (cases a) (simp add: isOrigin_def Point0_def)

lemma set_newgoals:
  "set (newgoals E s) =
     {g \<in> set (blgoals s). getDist E g (averagePosition E (blgoals s)) < 2 * deconflictRadius s}"
  by (auto simp add: newgoals_def Let_def mult.commute)

text \<open>
  Claim C1, amended. When the stuck counter has reached the stuck-time threshold and is an
  exact multiple of it (the threshold not being zero), the engine takes the mean of the
  pending goals and keeps the candidates closer than twice the deconfliction radius to it;
  when the survivors are more than half the history length and their mean is not the
  origin, that mean is committed to the blacklist and the pending list is cleared, and
  otherwise nothing is committed and the pending list is kept; the status is Stuck either
  way. In particular, with the pending goals \<^verbatim>\<open>(0,0), (0,0), (0,0), (100,100)\<close> and the
  radius 2.5 the mean is \<^verbatim>\<open>(25,25)\<close>, every candidate is farther than 5 from it, no
  candidate survives and nothing is committed; and the mean of the three points at the
  origin is the origin, which is never committed.
\<close>

theorem blacklist_commit:
  "(stopCheck s \<noteq> 0 \<and> stuck s \<ge> stopCheck s \<and> stuck s mod stopCheck s = 0 \<and>
    int (length (newgoals E s)) > hislen s div 2 \<and> \<not> isOrigin (averagePosition E (newgoals E s))
    \<longrightarrow> stuckReport E s =
          Inr (emit (Call_updateStatus ''Stuck'')
                 ((emit (Call_addBlacklist (averagePosition E (newgoals E s))) s)
                    \<lparr>blgoals := []\<rparr>))) \<and>
   (stopCheck s \<noteq> 0 \<and> stuck s \<ge> stopCheck s \<and> stuck s mod stopCheck s = 0 \<and>
    \<not> (int (length (newgoals E s)) > hislen s div 2 \<and>
       \<not> isOrigin (averagePosition E (newgoals E s)))
    \<longrightarrow> stuckReport E s = Inr (emit (Call_updateStatus ''Stuck'') s)) \<and>
   set (newgoals E s) =
     {g \<in> set (blgoals s). getDist E g (averagePosition E (blgoals s)) < 2 * deconflictRadius s} \<and>
   averagePosition sample_ext (blgoals outlier_robot) = \<lparr>p_x = 25, p_y = 25, p_z = 0\<rparr> \<and>
   newgoals sample_ext outlier_robot = [] \<and>
   stuckReport sample_ext outlier_robot = Inr (emit (Call_updateStatus ''Stuck'') outlier_robot) \<and>
   isOrigin (meanPosition [Point0, Point0, Point0])"
proof (intro conjI impI)
  assume "stopCheck s \<noteq> 0 \<and> stuck s \<ge> stopCheck s \<and> stuck s mod stopCheck s = 0 \<and>
    int (length (newgoals E s)) > hislen s div 2 \<and> \<not> isOrigin (averagePosition E (newgoals E s))"
  then show "stuckReport E s =
          Inr (emit (Call_updateStatus ''Stuck'')
                 ((emit (Call_addBlacklist (averagePosition E (newgoals E s))) s)
                    \<lparr>blgoals := []\<rparr>))"
    by (simp add: stuckReport_def commitBlacklist_def Let_def)
next
  assume "stopCheck s \<noteq> 0 \<and> stuck s \<ge> stopCheck s \<and> stuck s mod stopCheck s = 0 \<and>
    \<not> (int (length (newgoals E s)) > hislen s div 2 \<and>
       \<not> isOrigin (averagePosition E (newgoals E s)))"
  then show "stuckReport E s = Inr (emit (Call_updateStatus ''Stuck'') s)"
    by (auto simp add: stuckReport_def commitBlacklist_def Let_def)
next
  show "set (newgoals E s) =
     {g \<in> set (blgoals s). getDist E g (averagePosition E (blgoals s)) < 2 * deconflictRadius s}"
    by (rule set_newgoals)
next
  show avg: "averagePosition sample_ext (blgoals outlier_robot) = \<lparr>p_x = 25, p_y = 25, p_z = 0\<rparr>"
    by (simp add: outlier_robot_def sample_ext_def meanPosition_def mean_def)
  show ng: "newgoals sample_ext outlier_robot = []"
    unfolding newgoals_def avg Let_def
    by (simp add: outlier_robot_def init_robot_def sample_ext_def euclidean_less
        power2_eq_square)
  show "stuckReport sample_ext outlier_robot = Inr (emit (Call_updateStatus ''Stuck'') outlier_robot)"
    by (simp add: stuckReport_def commitBlacklist_def ng)
       (simp add: outlier_robot_def init_robot_def)
  show "isOrigin (meanPosition [Point0, Point0, Point0])"
    by (simp add: isOrigin_def meanPosition_def mean_def Point0_def)
qed

lemma cluster_avg:
  "averagePosition sample_ext (blgoals cluster_robot) = \<lparr>p_x = 2, p_y = 1, p_z = 0\<rparr>"
  by (simp add: cluster_robot_def sample_ext_def meanPosition_def mean_def)

lemma cluster_newgoals:
  "newgoals sample_ext cluster_robot =
     [\<lparr>p_x = 1, p_y = 1, p_z = 0\<rparr>, \<lparr>p_x = 1, p_y = 1, p_z = 0\<rparr>, \<lparr>p_x = 1, p_y = 1, p_z = 0\<rparr>,
      \<lparr>p_x = 1, p_y = 1, p_z = 0\<rparr>, \<lparr>p_x = 1, p_y = 1, p_z = 0\<rparr>, \<lparr>p_x = 1, p_y = 1, p_z = 0\<rparr>]"
  unfolding newgoals_def cluster_avg Let_def
  by (simp add: cluster_robot_def init_robot_def sample_ext_def euclidean_less power2_eq_square)

lemma cluster_mean:
  "averagePosition sample_ext (newgoals sample_ext cluster_robot) = \<lparr>p_x = 1, p_y = 1, p_z = 0\<rparr>"
  unfolding cluster_newgoals
  by (simp add: sample_ext_def meanPosition_def mean_def)

text \<open>
  The cluster with one outlier at distance 6 from the mean \<^verbatim>\<open>(2,1)\<close>: the six survivors'
  mean \<^verbatim>\<open>(1,1)\<close> is committed. The goals of the claim: nothing is committed.
\<close>

theorem blacklist_commit_witness:
  "stopCheck cluster_robot \<noteq> 0 \<and> stopCheck cluster_robot \<le> stuck cluster_robot \<and>
   stuck cluster_robot mod stopCheck cluster_robot = 0 \<and>
   hislen cluster_robot div 2 < int (length (newgoals sample_ext cluster_robot)) \<and>
   \<not> isOrigin (averagePosition sample_ext (newgoals sample_ext cluster_robot)) \<and>
   stuckReport sample_ext cluster_robot =
     Inr (cluster_robot\<lparr>blgoals := [],
            events := [Call_addBlacklist \<lparr>p_x = 1, p_y = 1, p_z = 0\<rparr>, Call_updateStatus ''Stuck'']\<rparr>) \<and>
   stopCheck outlier_robot \<noteq> 0 \<and> stopCheck outlier_robot \<le> stuck outlier_robot \<and>
   stuck outlier_robot mod stopCheck outlier_robot = 0 \<and>
   \<not> hislen outlier_robot div 2 < int (length (newgoals sample_ext outlier_robot)) \<and>
   stuckReport sample_ext outlier_robot =
     Inr (outlier_robot\<lparr>events := [Call_updateStatus ''Stuck'']\<rparr>)"
proof -
  note inst = blacklist_commit [of cluster_robot sample_ext]
  have c: "stopCheck cluster_robot \<noteq> 0" "stopCheck cluster_robot \<le> stuck cluster_robot"
      "stuck cluster_robot mod stopCheck cluster_robot = 0" "events cluster_robot = []"
    by (simp_all add: cluster_robot_def init_robot_def)
  have n: "hislen cluster_robot div 2 < int (length (newgoals sample_ext cluster_robot))"
    unfolding cluster_newgoals by (simp add: cluster_robot_def init_robot_def)
  have o: "\<not> isOrigin (averagePosition sample_ext (newgoals sample_ext cluster_robot))"
    unfolding cluster_mean by (simp add: isOrigin_def)
  from inst c n o have r1: "stuckReport sample_ext cluster_robot =
      Inr (emit (Call_updateStatus ''Stuck'')
             ((emit (Call_addBlacklist (averagePosition sample_ext (newgoals sample_ext cluster_robot)))
                 cluster_robot)\<lparr>blgoals := []\<rparr>))"
    by blast
  have u: "stopCheck outlier_robot \<noteq> 0" "stopCheck outlier_robot \<le> stuck outlier_robot"
      "stuck outlier_robot mod stopCheck outlier_robot = 0" "events outlier_robot = []"
      "hislen outlier_robot = 10"
    by (simp_all add: outlier_robot_def init_robot_def)
  from inst have ng: "newgoals sample_ext outlier_robot = []"
    and r2: "stuckReport sample_ext outlier_robot = Inr (emit (Call_updateStatus ''Stuck'') outlier_robot)"
    by blast+
  from c n o u r1 r2 show ?thesis
    by (simp add: ng cluster_mean emit_def)
qed

text \<open>
  Claim C1 as stated fails at its own example: with the pending goals
  \<^verbatim>\<open>(0,0), (0,0), (0,0), (100,100)\<close> and the radius 2.5, at a multiple of the threshold,
  no point is committed and the pending list is kept, for a history length of 10 and for
  one of 4 alike.
\<close>

theorem blacklist_outlier_counterexample:
  "deconflictRadius outlier_robot = 2.5 \<and>
   stopCheck outlier_robot \<le> stuck outlier_robot \<and>
   stuck outlier_robot mod stopCheck outlier_robot = 0 \<and>
   blgoals outlier_robot =
     [\<lparr>p_x = 0, p_y = 0, p_z = 0\<rparr>, \<lparr>p_x = 0, p_y = 0, p_z = 0\<rparr>,
      \<lparr>p_x = 0, p_y = 0, p_z = 0\<rparr>, \<lparr>p_x = 100, p_y = 100, p_z = 0\<rparr>] \<and>
   stuckReport sample_ext outlier_robot =
     Inr (outlier_robot\<lparr>events := [Call_updateStatus ''Stuck'']\<rparr>) \<and>
   stuckReport sample_ext (outlier_robot\<lparr>hislen := 4\<rparr>) =
     Inr (outlier_robot\<lparr>hislen := 4, events := [Call_updateStatus ''Stuck'']\<rparr>)"
proof -
  have avg: "averagePosition sample_ext (blgoals (outlier_robot\<lparr>hislen := h\<rparr>))
               = \<lparr>p_x = 25, p_y = 25, p_z = 0\<rparr>" for h
    by (simp add: outlier_robot_def sample_ext_def meanPosition_def mean_def)
  have ng: "newgoals sample_ext (outlier_robot\<lparr>hislen := h\<rparr>) = []" for h
    unfolding newgoals_def avg Let_def
    by (simp add: outlier_robot_def init_robot_def sample_ext_def euclidean_less
        power2_eq_square)
  have r: "stuckReport sample_ext (outlier_robot\<lparr>hislen := h\<rparr>) =
             Inr (outlier_robot\<lparr>hislen := h, events := [Call_updateStatus ''Stuck'']\<rparr>)"
    if "0 \<le> h" for h
    using that
    by (simp add: stuckReport_def commitBlacklist_def ng emit_def)
       (simp add: outlier_robot_def init_robot_def)
  have same: "outlier_robot\<lparr>hislen := 10\<rparr> = outlier_robot"
    by (simp add: outlier_robot_def init_robot_def)
  from r [of 10] r [of 4] show ?thesis
    by (simp add: same) (simp add: outlier_robot_def init_robot_def)
qed

end
